theory Spec2Isabelle
  imports Complex_Main "HOL-Library.Word"
begin

section \<open>Data model (src/types/gestures.ts)\<close>

text \<open>
  JavaScript numbers are modelled as real numbers: rounding is abstracted away, and the
  classifier and the reducer are read over exact arithmetic. Where the source guards
  against NaN (the motion analysis), NaN is an explicit value of the model.

  The fields \<open>x\<close> and \<open>y\<close> of a point are \<open>px\<close> and \<open>py\<close> here, those of a landmark
  \<open>lx\<close>, \<open>ly\<close> and \<open>lz\<close>; the field \<open>type\<close> of a gesture is \<open>gtype\<close> and the gesture
  type \<open>none\<close> is \<open>NoGesture\<close>. An optional field or a nullable reference is an option.
\<close>

record Point =
  px :: real
  py :: real

record Landmark =
  lx :: real
  ly :: real
  lz :: real

datatype GestureType = Pinch | Palm | Zoom | Fist | NoGesture

record GestureState =
  gtype :: GestureType
  confidence :: real
  position :: Point
  distance :: "real option"

record DrawingState =
  isDrawing :: bool
  isPanning :: bool
  isZooming :: bool
  isErasing :: bool
  scale :: real
  offset :: Point
  currentPath :: "Point list"
  paths :: "Point list list"


section \<open>Gesture classifier (src/utils/gestureDetection.ts)\<close>

definition calculateDistance :: "Landmark \<Rightarrow> Landmark \<Rightarrow> real" where
  "calculateDistance point1 point2 =
     sqrt ((lx point1 - lx point2)\<^sup>2 + (ly point1 - ly point2)\<^sup>2)"

definition fingerTips :: "nat list" where
  "fingerTips = [4, 8, 12, 16, 20]"

definition fingerPips :: "nat list" where
  "fingerPips = [3, 6, 10, 14, 18]"

definition fingerMcps :: "nat list" where
  "fingerMcps = [2, 5, 9, 13, 17]"

text \<open>
  The three accessors are only reached after the length test of \<open>detectGesture\<close>, with a
  finger number below 5, so every index read is below 21.
\<close>

definition getFingerTip :: "Landmark list \<Rightarrow> nat \<Rightarrow> Landmark" where
  "getFingerTip landmarks finger = landmarks ! (fingerTips ! finger)"

definition getFingerPip :: "Landmark list \<Rightarrow> nat \<Rightarrow> Landmark" where
  "getFingerPip landmarks finger = landmarks ! (fingerPips ! finger)"

definition getFingerMcp :: "Landmark list \<Rightarrow> nat \<Rightarrow> Landmark" where
  "getFingerMcp landmarks finger = landmarks ! (fingerMcps ! finger)"

definition isFingerExtended :: "Landmark list \<Rightarrow> nat \<Rightarrow> bool" where
  "isFingerExtended landmarks finger =
     (let tip = getFingerTip landmarks finger;
          pip = getFingerPip landmarks finger;
          mcp = getFingerMcp landmarks finger
      in if finger = 0
         then \<bar>lx tip - lx mcp\<bar> > \<bar>lx pip - lx mcp\<bar> + 0.02
         else ly mcp - ly tip > (ly mcp - ly pip) + 0.02)"

definition getExtendedFingerCount :: "Landmark list \<Rightarrow> nat" where
  "getExtendedFingerCount landmarks =
     length (filter (\<lambda>finger. isFingerExtended landmarks finger) [0, 1, 2, 3, 4])"

definition noGesture :: GestureState where
  "noGesture = \<lparr>gtype = NoGesture, confidence = 0, position = \<lparr>px = 0, py = 0\<rparr>, distance = None\<rparr>"

text \<open>
  The argument is optional: \<open>None\<close> stands for a null or undefined array, which the
  source tests with \<open>!landmarks\<close> (an array, even an empty one, is truthy).
\<close>

definition detectGesture :: "Landmark list option \<Rightarrow> GestureState" where
  "detectGesture arg =
     (case arg of
        None \<Rightarrow> noGesture
      | Some landmarks \<Rightarrow>
          if length landmarks \<noteq> 21 then noGesture
          else
            let thumbTip = getFingerTip landmarks 0;
                indexTip = getFingerTip landmarks 1;
                middleTip = getFingerTip landmarks 2;
                thumbIndexDistance = calculateDistance thumbTip indexTip;
                thumbMiddleDistance = calculateDistance thumbTip middleTip;
                extendedFingers = getExtendedFingerCount landmarks
            in if thumbIndexDistance < 0.04 \<and> extendedFingers \<le> 1 then
                 \<lparr>gtype = Pinch,
                  confidence = max 0.4 (1 - thumbIndexDistance * 15),
                  position = \<lparr>px = (lx thumbTip + lx indexTip) / 2,
                              py = (ly thumbTip + ly indexTip) / 2\<rparr>,
                  distance = None\<rparr>
               else
                 let thumbExtended = isFingerExtended landmarks 0;
                     middleExtended = isFingerExtended landmarks 2;
                     indexExtended = isFingerExtended landmarks 1;
                     ringExtended = isFingerExtended landmarks 3;
                     pinkyExtended = isFingerExtended landmarks 4
                 in if thumbExtended \<and> middleExtended \<and> \<not> indexExtended
                       \<and> \<not> ringExtended \<and> \<not> pinkyExtended then
                      \<lparr>gtype = Zoom,
                       confidence = 0.8,
                       position = \<lparr>px = (lx thumbTip + lx middleTip) / 2,
                                   py = (ly thumbTip + ly middleTip) / 2\<rparr>,
                       distance = Some thumbMiddleDistance\<rparr>
                    else if extendedFingers = 0 then
                      \<lparr>gtype = Fist,
                       confidence = 0.9,
                       position = \<lparr>px = lx (landmarks ! 9), py = ly (landmarks ! 9)\<rparr>,
                       distance = None\<rparr>
                    else if extendedFingers \<ge> 4 then
                      \<lparr>gtype = Palm,
                       confidence = 0.8,
                       position = \<lparr>px = lx (landmarks ! 9), py = ly (landmarks ! 9)\<rparr>,
                       distance = None\<rparr>
                    else if extendedFingers = 1 \<and> indexExtended then
                      \<lparr>gtype = Pinch,
                       confidence = 0.4,
                       position = \<lparr>px = lx indexTip, py = ly indexTip\<rparr>,
                       distance = None\<rparr>
                    else noGesture)"


section \<open>Gesture-to-action reducer (src/App.tsx)\<close>

text \<open>
  The mutable reference cells of the component. \<open>gestureTimeoutRef\<close> is never assigned
  in this revision and is left out, as is the logging.
\<close>

record Refs =
  lastGestureRef :: "GestureState option"
  lastZoomDistanceRef :: "real option"
  panStartRef :: "Point option"
  lastGestureTypeRef :: "GestureType option"
  lastDrawPositionRef :: "Point option"
  positionHistoryRef :: "Point list"

text \<open>The browser window, read through \<open>window.innerWidth\<close> and \<open>window.innerHeight\<close>.\<close>

record Window =
  innerWidth :: real
  innerHeight :: real

definition MIN_DISTANCE_THRESHOLD :: real where
  "MIN_DISTANCE_THRESHOLD = 0.01"

definition SMOOTHING_WINDOW :: nat where
  "SMOOTHING_WINDOW = 3"

text \<open>
  A callback of the component closes over the drawing state of the render that created it
  (\<open>snap\<close> below), while the functions it hands to \<open>setDrawingState\<close> receive the state
  that is current when the update is applied (\<open>prev\<close>). The two are kept apart: a callback
  returns the updated reference cells and the composition of the updates it queued.
\<close>

definition screenToCanvas :: "Window \<Rightarrow> DrawingState \<Rightarrow> Point \<Rightarrow> Point" where
  "screenToCanvas win snap screenPoint =
     \<lparr>px = (px screenPoint * innerWidth win - px (offset snap)) / scale snap,
      py = (py screenPoint * innerHeight win - py (offset snap)) / scale snap\<rparr>"

text \<open>
  The distance the erase filter and the movement threshold both compute in place, as
  \<open>Math.sqrt(Math.pow(a.x - b.x, 2) + Math.pow(a.y - b.y, 2))\<close>.
\<close>

definition pointDistance :: "Point \<Rightarrow> Point \<Rightarrow> real" where
  "pointDistance a b = sqrt ((px a - px b)\<^sup>2 + (py a - py b)\<^sup>2)"

text \<open>
  Truthiness of an optional number: present and not zero. (NaN, which is falsy as well, is
  not a value of the real model.)
\<close>

definition truthy :: "real option \<Rightarrow> bool" where
  "truthy v = (case v of None \<Rightarrow> False | Some d \<Rightarrow> d \<noteq> 0)"

text \<open>Handle drawing (pinch gesture): lines 60 to 102.\<close>

definition finishPath :: "DrawingState \<Rightarrow> DrawingState" where
  "finishPath prev =
     (if length (currentPath prev) > 1
      then prev\<lparr>isDrawing := False, paths := paths prev @ [currentPath prev], currentPath := []\<rparr>
      else prev\<lparr>isDrawing := False, currentPath := []\<rparr>)"

definition handleDrawing ::
  "DrawingState \<Rightarrow> GestureState \<Rightarrow> Refs \<Rightarrow> Refs \<times> (DrawingState \<Rightarrow> DrawingState)" where
  "handleDrawing snap gesture r =
     (if gtype gesture = Pinch \<and> confidence gesture > 0.6 then
        (if \<not> isDrawing snap
         then (r\<lparr>positionHistoryRef := [], lastDrawPositionRef := None\<rparr>,
               \<lambda>prev. prev\<lparr>isDrawing := True, currentPath := []\<rparr>)
         else (r, \<lambda>prev. prev))
      else if isDrawing snap \<and> gtype gesture \<noteq> Pinch then (r, finishPath)
      else (r, \<lambda>prev. prev))"

text \<open>Handle panning (palm gesture): lines 110 to 166.\<close>

definition handlePanning ::
  "Window \<Rightarrow> DrawingState \<Rightarrow> GestureState \<Rightarrow> Refs \<Rightarrow> Refs \<times> (DrawingState \<Rightarrow> DrawingState)" where
  "handlePanning win snap gesture r =
     (if gtype gesture = Palm \<and> confidence gesture > 0.7 then
        (let flippedPosition = \<lparr>px = 1 - px (position gesture), py = py (position gesture)\<rparr>;
             flippedScreenPoint = \<lparr>px = px flippedPosition * innerWidth win,
                                   py = py flippedPosition * innerHeight win\<rparr>
         in if \<not> isPanning snap
            then (r\<lparr>panStartRef := Some flippedScreenPoint\<rparr>, \<lambda>prev. prev\<lparr>isPanning := True\<rparr>)
            else (case panStartRef r of
                    Some panStart \<Rightarrow>
                      (let deltaX = px flippedScreenPoint - px panStart;
                           deltaY = py flippedScreenPoint - py panStart
                       in (r\<lparr>panStartRef := Some flippedScreenPoint\<rparr>,
                           \<lambda>prev. prev\<lparr>offset := \<lparr>px = px (offset prev) + deltaX,
                                                     py = py (offset prev) + deltaY\<rparr>\<rparr>))
                  | None \<Rightarrow> (r, \<lambda>prev. prev)))
      else if isPanning snap \<and> gtype gesture \<noteq> Palm
      then (r\<lparr>panStartRef := None\<rparr>, \<lambda>prev. prev\<lparr>isPanning := False\<rparr>)
      else (r, \<lambda>prev. prev))"

text \<open>Handle zooming (two finger gesture): lines 168 to 193.\<close>

definition handleZooming ::
  "DrawingState \<Rightarrow> GestureState \<Rightarrow> Refs \<Rightarrow> Refs \<times> (DrawingState \<Rightarrow> DrawingState)" where
  "handleZooming snap gesture r =
     (if gtype gesture = Zoom \<and> truthy (distance gesture) \<and> confidence gesture > 0.7 then
        (if \<not> isZooming snap
         then (r\<lparr>lastZoomDistanceRef := distance gesture\<rparr>, \<lambda>prev. prev\<lparr>isZooming := True\<rparr>)
         else if truthy (lastZoomDistanceRef r) then
           (let zoomFactor = the (distance gesture) / the (lastZoomDistanceRef r);
                newScale = max 0.1 (min 5 (scale snap * zoomFactor))
            in (r\<lparr>lastZoomDistanceRef := distance gesture\<rparr>, \<lambda>prev. prev\<lparr>scale := newScale\<rparr>))
         else (r, \<lambda>prev. prev))
      else if isZooming snap \<and> gtype gesture \<noteq> Zoom
      then (r\<lparr>lastZoomDistanceRef := None\<rparr>, \<lambda>prev. prev\<lparr>isZooming := False\<rparr>)
      else (r, \<lambda>prev. prev))"

text \<open>Handle erasing (fist gesture): lines 195 to 227.\<close>

definition nearPoint :: "Point \<Rightarrow> real \<Rightarrow> Point \<Rightarrow> bool" where
  "nearPoint canvasPoint eraseRadius point = (pointDistance point canvasPoint < eraseRadius)"

definition handleErasing ::
  "Window \<Rightarrow> DrawingState \<Rightarrow> GestureState \<Rightarrow> (DrawingState \<Rightarrow> DrawingState)" where
  "handleErasing win snap gesture =
     (if gtype gesture = Fist \<and> confidence gesture > 0.8 then
        (let flippedPosition = \<lparr>px = 1 - px (position gesture), py = py (position gesture)\<rparr>;
             canvasPoint = screenToCanvas win snap flippedPosition;
             markErasing = (if \<not> isErasing snap then (\<lambda>prev. prev\<lparr>isErasing := True\<rparr>)
                            else (\<lambda>prev. prev));
             eraseRadius = 50 / scale snap
         in (\<lambda>prev. prev\<lparr>paths :=
                 filter (\<lambda>path. \<not> list_ex (nearPoint canvasPoint eraseRadius) path) (paths prev)\<rparr>)
            \<circ> markErasing)
      else if isErasing snap \<and> gtype gesture \<noteq> Fist then (\<lambda>prev. prev\<lparr>isErasing := False\<rparr>)
      else (\<lambda>prev. prev))"

text \<open>
  The whole callback: the four blocks run in the order of the source, the updates they queue
  are applied in that order, and the reference cells are threaded through.
\<close>

definition handleGestureDetected ::
  "Window \<Rightarrow> DrawingState \<Rightarrow> GestureState \<Rightarrow> Refs \<Rightarrow> Refs \<times> (DrawingState \<Rightarrow> DrawingState)" where
  "handleGestureDetected win snap gesture r =
     (let (r1, drawUpdate) = handleDrawing snap gesture r;
          r2 = (if gtype gesture = NoGesture then r1\<lparr>lastGestureTypeRef := None\<rparr> else r1);
          (r3, panUpdate) = handlePanning win snap gesture r2;
          (r4, zoomUpdate) = handleZooming snap gesture r3;
          eraseUpdate = handleErasing win snap gesture
      in (r4\<lparr>lastGestureRef := Some gesture, lastGestureTypeRef := Some (gtype gesture)\<rparr>,
          eraseUpdate \<circ> zoomUpdate \<circ> panUpdate \<circ> drawUpdate))"

definition handleClearCanvas :: "DrawingState \<Rightarrow> DrawingState" where
  "handleClearCanvas prev = prev\<lparr>paths := [], currentPath := []\<rparr>"

definition handleResetView :: "DrawingState \<Rightarrow> DrawingState" where
  "handleResetView prev = prev\<lparr>scale := 1, offset := \<lparr>px = 0, py = 0\<rparr>\<rparr>"

text \<open>
  The hand-position callback. The update it queues also writes \<open>lastDrawPositionRef\<close>, so
  the state the update is applied to is an argument and the reference cells are returned
  as they are once the update has run.
\<close>

definition pushPosition :: "Point list \<Rightarrow> Point \<Rightarrow> Point list" where
  "pushPosition history handPosition =
     (let pushed = history @ [handPosition]
      in if length pushed > SMOOTHING_WINDOW then tl pushed else pushed)"

definition smoothed :: "Point list \<Rightarrow> Point" where
  "smoothed history =
     \<lparr>px = foldl (\<lambda>sum p. sum + px p) 0 history / real (length history),
      py = foldl (\<lambda>sum p. sum + py p) 0 history / real (length history)\<rparr>"

definition handleHandPositionUpdate ::
  "Window \<Rightarrow> DrawingState \<Rightarrow> Point option \<Rightarrow> Refs \<Rightarrow> DrawingState \<Rightarrow> Refs \<times> DrawingState" where
  "handleHandPositionUpdate win snap pos r prev =
     (case pos of
        Some handPosition \<Rightarrow>
          if lastGestureTypeRef r = Some Pinch then
            (let history = pushPosition (positionHistoryRef r) handPosition;
                 r1 = r\<lparr>positionHistoryRef := history\<rparr>;
                 smoothedPosition = smoothed history;
                 tooClose =
                   (case lastDrawPositionRef r1 of
                      None \<Rightarrow> False
                    | Some lastDraw \<Rightarrow>
                        pointDistance smoothedPosition lastDraw < MIN_DISTANCE_THRESHOLD)
             in if tooClose then (r1, prev)
                else
                  (let flippedPosition = \<lparr>px = 1 - px smoothedPosition, py = py smoothedPosition\<rparr>;
                       canvasPoint = screenToCanvas win snap flippedPosition
                   in if length (currentPath prev) = 0 then
                        (r1\<lparr>lastDrawPositionRef := Some smoothedPosition\<rparr>,
                         prev\<lparr>isDrawing := True, currentPath := [canvasPoint]\<rparr>)
                      else if (px (last (currentPath prev)) \<noteq> px canvasPoint
                               \<or> py (last (currentPath prev)) \<noteq> py canvasPoint)
                              \<and> length (currentPath prev) < 1000 then
                        (r1\<lparr>lastDrawPositionRef := Some smoothedPosition\<rparr>,
                         prev\<lparr>isDrawing := True, currentPath := currentPath prev @ [canvasPoint]\<rparr>)
                      else (r1, prev)))
          else (r\<lparr>positionHistoryRef := [], lastDrawPositionRef := None\<rparr>, prev)
      | None \<Rightarrow> (r\<lparr>positionHistoryRef := [], lastDrawPositionRef := None\<rparr>, prev))"


subsection \<open>The component as a transition system\<close>

record App =
  drawingState :: DrawingState
  refs :: Refs
  currentGesture :: GestureState

definition initialApp :: App where
  "initialApp =
     \<lparr>drawingState = \<lparr>isDrawing = False, isPanning = False, isZooming = False, isErasing = False,
                       scale = 1, offset = \<lparr>px = 0, py = 0\<rparr>, currentPath = [], paths = []\<rparr>,
      refs = \<lparr>lastGestureRef = None, lastZoomDistanceRef = None, panStartRef = None,
              lastGestureTypeRef = None, lastDrawPositionRef = None, positionHistoryRef = []\<rparr>,
      currentGesture = \<lparr>gtype = NoGesture, confidence = 0, position = \<lparr>px = 0, py = 0\<rparr>,
                        distance = None\<rparr>\<rparr>"

datatype Event =
    GestureDetected GestureState
  | HandPositionUpdate "Point option"
  | ClearCanvas
  | ResetView

text \<open>
  One callback invocation. \<open>snap\<close> is the drawing state the invoked callback closed over:
  the state of the latest render, which is the current state when the component has
  rendered since the last update and an older one otherwise.
\<close>

definition dispatch :: "Window \<Rightarrow> DrawingState \<Rightarrow> Event \<Rightarrow> App \<Rightarrow> App" where
  "dispatch win snap ev app =
     (case ev of
        GestureDetected gesture \<Rightarrow>
          (let (r, update) = handleGestureDetected win snap gesture (refs app)
           in app\<lparr>drawingState := update (drawingState app), refs := r, currentGesture := gesture\<rparr>)
      | HandPositionUpdate pos \<Rightarrow>
          (let (r, ds) = handleHandPositionUpdate win snap pos (refs app) (drawingState app)
           in app\<lparr>drawingState := ds, refs := r\<rparr>)
      | ClearCanvas \<Rightarrow> app\<lparr>drawingState := handleClearCanvas (drawingState app)\<rparr>
      | ResetView \<Rightarrow> app\<lparr>drawingState := handleResetView (drawingState app)\<rparr>)"

text \<open>
  A run: each event comes with the snapshot its callback closed over. These four callbacks
  are the only writers of the drawing state: the canvas component is handed the setter, but
  its \<open>addPoint\<close>, \<open>finishPath\<close> and \<open>eraseAtPoint\<close> are bound to no event.
\<close>

fun run :: "Window \<Rightarrow> App \<Rightarrow> (DrawingState \<times> Event) list \<Rightarrow> App" where
  "run win app [] = app"
| "run win app ((snap, ev) # rest) = run win (dispatch win snap ev app) rest"


section \<open>Motion analysis (src/utils/simpleGestureDetection.ts)\<close>

text \<open>
  A number of the motion analysis is a real or NaN. Reading a typed array beyond its end
  gives \<open>undefined\<close>, which the arithmetic that follows turns into NaN.
\<close>

datatype jsnum = Num real | NaN

record ImageData =
  data :: "8 word list"
  width :: nat
  height :: nat

definition readByte :: "8 word list \<Rightarrow> nat \<Rightarrow> jsnum" where
  "readByte bytes i = (if i < length bytes then Num (real (unat (bytes ! i))) else NaN)"

fun jsAdd :: "jsnum \<Rightarrow> jsnum \<Rightarrow> jsnum" where
  "jsAdd (Num a) (Num b) = Num (a + b)"
| "jsAdd _ _ = NaN"

fun jsSub :: "jsnum \<Rightarrow> jsnum \<Rightarrow> jsnum" where
  "jsSub (Num a) (Num b) = Num (a - b)"
| "jsSub _ _ = NaN"

fun jsMul :: "jsnum \<Rightarrow> jsnum \<Rightarrow> jsnum" where
  "jsMul (Num a) (Num b) = Num (a * b)"
| "jsMul _ _ = NaN"

text \<open>
  Every divisor of \<open>detectMotion\<close> is 3, 255 or the sample count after the zero guard. The
  quotient by zero is NaN here, which is what JavaScript gives for \<open>0 / 0\<close>.
\<close>

fun jsDiv :: "jsnum \<Rightarrow> jsnum \<Rightarrow> jsnum" where
  "jsDiv (Num a) (Num b) = (if b = 0 then NaN else Num (a / b))"
| "jsDiv _ _ = NaN"

fun jsAbs :: "jsnum \<Rightarrow> jsnum" where
  "jsAbs (Num a) = Num \<bar>a\<bar>"
| "jsAbs NaN = NaN"

text \<open>A comparison with NaN is false.\<close>

fun jsGreater :: "jsnum \<Rightarrow> jsnum \<Rightarrow> bool" where
  "jsGreater (Num a) (Num b) = (a > b)"
| "jsGreater _ _ = False"

fun isNaN :: "jsnum \<Rightarrow> bool" where
  "isNaN NaN = True"
| "isNaN (Num a) = False"

definition brightness :: "8 word list \<Rightarrow> nat \<Rightarrow> jsnum" where
  "brightness bytes i =
     jsDiv (jsAdd (jsAdd (readByte bytes i) (readByte bytes (i + 1))) (readByte bytes (i + 2)))
           (Num 3)"

text \<open>
  The sampling loop of \<open>detectMotion\<close>, with the counters \<open>motionPixels\<close>, \<open>totalPixels\<close> and
  the accumulator \<open>totalDifference\<close> as its state.
\<close>

function motionLoop ::
  "8 word list \<Rightarrow> 8 word list \<Rightarrow> nat \<Rightarrow> nat \<times> nat \<times> jsnum \<Rightarrow> nat \<times> nat \<times> jsnum" where
  "motionLoop currentData previousData i (motionPixels, totalPixels, totalDifference) =
     (if int i < int (length currentData) - 2 then
        (let currentBrightness = brightness currentData i;
             previousBrightness = brightness previousData i;
             difference = jsAbs (jsSub currentBrightness previousBrightness)
         in motionLoop currentData previousData (i + 2)
              (if jsGreater difference (Num 3) then motionPixels + 1 else motionPixels,
               totalPixels + 1,
               jsAdd totalDifference difference))
      else (motionPixels, totalPixels, totalDifference))"
  by pat_completeness auto
termination
  by (relation "measure (\<lambda>(currentData, previousData, i, acc). length currentData - i)") auto

definition detectMotion :: "ImageData \<Rightarrow> ImageData \<Rightarrow> jsnum" where
  "detectMotion current previous =
     (let (motionPixels, totalPixels, totalDifference) =
            motionLoop (data current) (data previous) 0 (0, 0, Num 0)
      in if totalPixels = 0 then Num 0
         else
           (let avgDifference = jsDiv totalDifference (Num (real totalPixels));
                motionRatio = jsDiv (Num (real motionPixels)) (Num (real totalPixels));
                nanDetected = (isNaN avgDifference \<or> isNaN motionRatio);
                avgDifference = (if nanDetected then Num 0 else avgDifference);
                motionRatio = (if nanDetected then Num 0 else motionRatio);
                motionScore = jsAdd (jsMul motionRatio (Num 0.8))
                                    (jsMul (jsDiv avgDifference (Num 255)) (Num 0.2))
            in if isNaN motionScore then Num 0 else motionScore))"


section \<open>The inverse view transform\<close>

text \<open>
  The source has no function from canvas space back to screen space; the renderer applies
  the view transform through the drawing context. This is the inverse as the specification
  words it, \<open>(canvas * scale + offset) / viewport_dimension\<close> per axis.
\<close>

definition specCanvasToScreen :: "Window \<Rightarrow> DrawingState \<Rightarrow> Point \<Rightarrow> Point" where
  "specCanvasToScreen win snap canvasPoint =
     \<lparr>px = (px canvasPoint * scale snap + px (offset snap)) / innerWidth win,
      py = (py canvasPoint * scale snap + py (offset snap)) / innerHeight win\<rparr>"


section \<open>Example inputs\<close>

text \<open>A hand whose 21 landmarks coincide: no finger is extended and the thumb tip touches
  the index tip.\<close>

definition clenchedHand :: "Landmark list" where
  "clenchedHand = replicate 21 \<lparr>lx = 0.5, ly = 0.5, lz = 0\<rparr>"

text \<open>The same hand with the thumb tip moved 0.1 down, away from the index tip.\<close>

definition thumbAsideHand :: "Landmark list" where
  "thumbAsideHand =
     (replicate 21 \<lparr>lx = 0.5, ly = 0.5, lz = 0\<rparr>)[4 := \<lparr>lx = 0.5, ly = 0.6, lz = 0\<rparr>]"

definition exampleWindow :: Window where
  "exampleWindow = \<lparr>innerWidth = 1000, innerHeight = 500\<rparr>"

definition zoomGesture :: "real \<Rightarrow> GestureState" where
  "zoomGesture d = \<lparr>gtype = Zoom, confidence = 0.8, position = \<lparr>px = 0.5, py = 0.5\<rparr>,
                    distance = Some d\<rparr>"

definition fistGesture :: GestureState where
  "fistGesture = \<lparr>gtype = Fist, confidence = 0.9, position = \<lparr>px = 0.5, py = 0.5\<rparr>,
                  distance = None\<rparr>"

definition palmGesture :: GestureState where
  "palmGesture = \<lparr>gtype = Palm, confidence = 0.8, position = \<lparr>px = 0.5, py = 0.5\<rparr>,
                  distance = None\<rparr>"

text \<open>A zoom that starts at distance 0.1 and is then reported at distance 10.\<close>

definition zoomCalls :: "(DrawingState \<times> Event) list" where
  "zoomCalls =
     [(drawingState initialApp, GestureDetected (zoomGesture 0.1)),
      ((drawingState initialApp)\<lparr>isZooming := True\<rparr>, GestureDetected (zoomGesture 10))]"

text \<open>The component in the middle of a zoom: the baseline 0.1 is recorded.\<close>

definition zoomingApp :: App where
  "zoomingApp =
     initialApp\<lparr>drawingState := (drawingState initialApp)\<lparr>isZooming := True\<rparr>,
                refs := (refs initialApp)\<lparr>lastZoomDistanceRef := Some 0.1\<rparr>\<rparr>"

definition pannedView :: DrawingState where
  "pannedView = (drawingState initialApp)\<lparr>scale := 2, offset := \<lparr>px = 10, py = 20\<rparr>\<rparr>"

definition drawingSnapshot :: DrawingState where
  "drawingSnapshot = (drawingState initialApp)\<lparr>isDrawing := True\<rparr>"

definition strokeInProgress :: DrawingState where
  "strokeInProgress =
     drawingSnapshot\<lparr>currentPath := [\<lparr>px = 500, py = 250\<rparr>, \<lparr>px = 510, py = 250\<rparr>]\<rparr>"

definition dotInProgress :: DrawingState where
  "dotInProgress = drawingSnapshot\<lparr>currentPath := [\<lparr>px = 500, py = 250\<rparr>]\<rparr>"

definition twoPaths :: DrawingState where
  "twoPaths = (drawingState initialApp)
     \<lparr>paths := [ [\<lparr>px = 100, py = 250\<rparr>, \<lparr>px = 520, py = 250\<rparr>], [\<lparr>px = 600, py = 250\<rparr>] ]\<rparr>"

definition boundaryPaths :: DrawingState where
  "boundaryPaths = (drawingState initialApp)\<lparr>paths := [ [\<lparr>px = 550, py = 250\<rparr>] ]\<rparr>"

definition pinchRefs :: Refs where
  "pinchRefs = (refs initialApp)\<lparr>lastGestureTypeRef := Some Pinch,
                 lastDrawPositionRef := Some \<lparr>px = 0, py = 0\<rparr>\<rparr>"

definition emptyFrame :: ImageData where
  "emptyFrame = \<lparr>data = [], width = 0, height = 0\<rparr>"

definition onePixelFrame :: ImageData where
  "onePixelFrame = \<lparr>data = [10, 20, 30, 255], width = 1, height = 1\<rparr>"


section \<open>Properties of the gesture classifier\<close>

lemma calculateDistance_nonneg: "0 \<le> calculateDistance a b"
  by (simp add: calculateDistance_def)

lemma calculateDistance_vertical: "lx a = lx b \<Longrightarrow> calculateDistance a b = \<bar>ly a - ly b\<bar>"
  by (simp add: calculateDistance_def)

lemma getExtendedFingerCount_zero_iff:
  "getExtendedFingerCount ls = 0 \<longleftrightarrow>
     (\<not> isFingerExtended ls 0 \<and> \<not> isFingerExtended ls 1 \<and> \<not> isFingerExtended ls 2
      \<and> \<not> isFingerExtended ls 3 \<and> \<not> isFingerExtended ls 4)"
  by (simp add: getExtendedFingerCount_def)

lemma clenchedHand_not_extended: "f < 5 \<Longrightarrow> \<not> isFingerExtended clenchedHand f"
  by (auto simp: isFingerExtended_def clenchedHand_def getFingerTip_def getFingerPip_def
        getFingerMcp_def fingerTips_def fingerPips_def fingerMcps_def nth_Cons')

lemma clenchedHand_count: "getExtendedFingerCount clenchedHand = 0"
  by (simp add: getExtendedFingerCount_zero_iff clenchedHand_not_extended)

lemma clenchedHand_thumb_index:
  "calculateDistance (getFingerTip clenchedHand 0) (getFingerTip clenchedHand 1) = 0"
  by (simp add: calculateDistance_def clenchedHand_def getFingerTip_def fingerTips_def)

lemma thumbAsideHand_not_extended: "f < 5 \<Longrightarrow> \<not> isFingerExtended thumbAsideHand f"
  by (simp add: isFingerExtended_def thumbAsideHand_def getFingerTip_def getFingerPip_def
        getFingerMcp_def fingerTips_def fingerPips_def fingerMcps_def nth_Cons' nth_list_update)

lemma thumbAsideHand_thumb_index:
  "calculateDistance (getFingerTip thumbAsideHand 0) (getFingerTip thumbAsideHand 1) = 0.1"
  by (subst calculateDistance_vertical)
     (simp_all add: thumbAsideHand_def getFingerTip_def fingerTips_def)

text \<open>
  C1. Whenever the landmark argument is absent or its length is not 21, \<open>detectGesture\<close>
  returns the gesture of type none with confidence 0 (position at the origin, no distance).
  The function is total: there is no input on which it fails.
\<close>

theorem detectGesture_malformed_count:
  assumes "\<forall>ls. arg = Some ls \<longrightarrow> length ls \<noteq> 21"
  shows "detectGesture arg =
           \<lparr>gtype = NoGesture, confidence = 0, position = \<lparr>px = 0, py = 0\<rparr>, distance = None\<rparr>"
  using assms by (cases arg) (simp_all add: detectGesture_def noGesture_def)

theorem detectGesture_malformed_count_witness:
  "length ([] :: Landmark list) \<noteq> 21 \<and>
   gtype (detectGesture (Some [])) = NoGesture \<and> confidence (detectGesture (Some [])) = 0 \<and>
   gtype (detectGesture None) = NoGesture \<and> confidence (detectGesture None) = 0"
  using detectGesture_malformed_count [of "Some []"] detectGesture_malformed_count [of None]
  by simp

text \<open>
  C2, as amended. For a hand of 21 landmarks with no finger extended whose thumb tip and
  index tip are at least 0.04 apart, \<open>detectGesture\<close> returns a fist with confidence 0.9,
  positioned at landmark 9. The pinch test comes first in the source, so every hand of 21
  landmarks with no finger extended whose thumb tip and index tip are closer than 0.04 is
  a pinch, not a fist: its confidence is the maximum of 0.4 and 1 minus 15 times that
  distance, and its position is the midpoint of the two tips.
\<close>

theorem detectGesture_fist:
  assumes "length ls = 21" and "getExtendedFingerCount ls = 0"
  shows "(calculateDistance (getFingerTip ls 0) (getFingerTip ls 1) \<ge> 0.04 \<longrightarrow>
            detectGesture (Some ls) =
              \<lparr>gtype = Fist, confidence = 0.9,
               position = \<lparr>px = lx (ls ! 9), py = ly (ls ! 9)\<rparr>, distance = None\<rparr>) \<and>
         (calculateDistance (getFingerTip ls 0) (getFingerTip ls 1) < 0.04 \<longrightarrow>
            detectGesture (Some ls) =
              \<lparr>gtype = Pinch,
               confidence =
                 max 0.4 (1 - calculateDistance (getFingerTip ls 0) (getFingerTip ls 1) * 15),
               position = \<lparr>px = (lx (getFingerTip ls 0) + lx (getFingerTip ls 1)) / 2,
                           py = (ly (getFingerTip ls 0) + ly (getFingerTip ls 1)) / 2\<rparr>,
               distance = None\<rparr>)"
proof -
  have thumb: "\<not> isFingerExtended ls 0"
    using assms(2) by (simp add: getExtendedFingerCount_zero_iff)
  have fist: "calculateDistance (getFingerTip ls 0) (getFingerTip ls 1) \<ge> 0.04 \<longrightarrow>
            detectGesture (Some ls) =
              \<lparr>gtype = Fist, confidence = 0.9,
               position = \<lparr>px = lx (ls ! 9), py = ly (ls ! 9)\<rparr>, distance = None\<rparr>"
    using thumb assms by (simp add: detectGesture_def Let_def)
  have pinch: "calculateDistance (getFingerTip ls 0) (getFingerTip ls 1) < 0.04 \<longrightarrow>
            detectGesture (Some ls) =
              \<lparr>gtype = Pinch,
               confidence =
                 max 0.4 (1 - calculateDistance (getFingerTip ls 0) (getFingerTip ls 1) * 15),
               position = \<lparr>px = (lx (getFingerTip ls 0) + lx (getFingerTip ls 1)) / 2,
                           py = (ly (getFingerTip ls 0) + ly (getFingerTip ls 1)) / 2\<rparr>,
               distance = None\<rparr>"
    using assms by (simp add: detectGesture_def Let_def)
  from fist pinch show ?thesis
    by (rule conjI)
qed

theorem detectGesture_fist_witness:
  "length thumbAsideHand = 21 \<and> getExtendedFingerCount thumbAsideHand = 0
   \<and> calculateDistance (getFingerTip thumbAsideHand 0) (getFingerTip thumbAsideHand 1) \<ge> 0.04
   \<and> detectGesture (Some thumbAsideHand) =
        \<lparr>gtype = Fist, confidence = 0.9, position = \<lparr>px = 0.5, py = 0.5\<rparr>, distance = None\<rparr>
   \<and> length clenchedHand = 21 \<and> getExtendedFingerCount clenchedHand = 0
   \<and> calculateDistance (getFingerTip clenchedHand 0) (getFingerTip clenchedHand 1) < 0.04
   \<and> detectGesture (Some clenchedHand) =
        \<lparr>gtype = Pinch, confidence = 1, position = \<lparr>px = 0.5, py = 0.5\<rparr>, distance = None\<rparr>"
proof -
  have len: "length thumbAsideHand = 21"
    by (simp add: thumbAsideHand_def)
  have cnt: "getExtendedFingerCount thumbAsideHand = 0"
    by (simp add: getExtendedFingerCount_zero_iff thumbAsideHand_not_extended)
  have l9: "thumbAsideHand ! 9 = \<lparr>lx = 0.5, ly = 0.5, lz = 0\<rparr>"
    by (simp add: thumbAsideHand_def)
  have fist: "detectGesture (Some thumbAsideHand) =
        \<lparr>gtype = Fist, confidence = 0.9, position = \<lparr>px = 0.5, py = 0.5\<rparr>, distance = None\<rparr>"
    using detectGesture_fist [of thumbAsideHand] len cnt thumbAsideHand_thumb_index l9 by simp
  have len': "length clenchedHand = 21"
    by (simp add: clenchedHand_def)
  have tips: "getFingerTip clenchedHand 0 = \<lparr>lx = 0.5, ly = 0.5, lz = 0\<rparr>"
    "getFingerTip clenchedHand 1 = \<lparr>lx = 0.5, ly = 0.5, lz = 0\<rparr>"
    by (simp_all add: clenchedHand_def getFingerTip_def fingerTips_def)
  have pinch: "detectGesture (Some clenchedHand) =
        \<lparr>gtype = Pinch, confidence = 1, position = \<lparr>px = 0.5, py = 0.5\<rparr>, distance = None\<rparr>"
    using detectGesture_fist [of clenchedHand] len' clenchedHand_count
      clenchedHand_thumb_index tips
    by simp
  show ?thesis
    using len cnt thumbAsideHand_thumb_index fist len' clenchedHand_count
      clenchedHand_thumb_index pinch
    by simp
qed

text \<open>
  The claim as stated fails on the clenched hand: it has 21 landmarks, none of its five
  fingers is extended, and it is classified as a pinch with confidence 1.
\<close>

theorem detectGesture_fist_counterexample:
  "length clenchedHand = 21
   \<and> \<not> isFingerExtended clenchedHand 0 \<and> \<not> isFingerExtended clenchedHand 1
   \<and> \<not> isFingerExtended clenchedHand 2 \<and> \<not> isFingerExtended clenchedHand 3
   \<and> \<not> isFingerExtended clenchedHand 4
   \<and> getExtendedFingerCount clenchedHand = 0
   \<and> gtype (detectGesture (Some clenchedHand)) = Pinch
   \<and> confidence (detectGesture (Some clenchedHand)) = 1"
proof -
  have len: "length clenchedHand = 21"
    by (simp add: clenchedHand_def)
  show ?thesis
    using clenchedHand_not_extended clenchedHand_count len clenchedHand_thumb_index
    by (simp add: detectGesture_def Let_def)
qed

text \<open>
  C9. For every argument of \<open>detectGesture\<close> the confidence of the result lies between
  0 and 1. Every result of type pinch has confidence at least 0.4; on the pinch branch
  proper the confidence is the maximum of 0.4 and 1 minus 15 times the distance between
  thumb tip and index tip, a distance that is never negative.
\<close>

theorem detectGesture_confidence_range:
  "0 \<le> confidence (detectGesture arg) \<and> confidence (detectGesture arg) \<le> 1 \<and>
   (gtype (detectGesture arg) = Pinch \<longrightarrow> 0.4 \<le> confidence (detectGesture arg)) \<and>
   (\<forall>ls. arg = Some ls \<and> length ls = 21
         \<and> calculateDistance (getFingerTip ls 0) (getFingerTip ls 1) < 0.04
         \<and> getExtendedFingerCount ls \<le> 1 \<longrightarrow>
      0 \<le> calculateDistance (getFingerTip ls 0) (getFingerTip ls 1) \<and>
      confidence (detectGesture arg) =
        max 0.4 (1 - calculateDistance (getFingerTip ls 0) (getFingerTip ls 1) * 15))"
  using calculateDistance_nonneg
  by (auto simp: detectGesture_def noGesture_def Let_def split: option.splits)

theorem detectGesture_confidence_range_witness:
  "gtype (detectGesture (Some clenchedHand)) = Pinch \<and>
   length clenchedHand = 21 \<and>
   calculateDistance (getFingerTip clenchedHand 0) (getFingerTip clenchedHand 1) < 0.04 \<and>
   getExtendedFingerCount clenchedHand \<le> 1 \<and>
   0.4 \<le> confidence (detectGesture (Some clenchedHand)) \<and>
   confidence (detectGesture (Some clenchedHand)) \<le> 1"
proof -
  have len: "length clenchedHand = 21"
    by (simp add: clenchedHand_def)
  have pinch: "gtype (detectGesture (Some clenchedHand)) = Pinch"
    using clenchedHand_count len clenchedHand_thumb_index
    by (simp add: detectGesture_def Let_def)
  show ?thesis
    using detectGesture_confidence_range [of "Some clenchedHand"] pinch len
      clenchedHand_count clenchedHand_thumb_index
    by simp
qed


section \<open>Properties of the view transform\<close>

text \<open>
  C6. For every screen point, every offset and every scale between 0.1 and 5, converting
  the point to canvas space with \<open>screenToCanvas\<close> and back with the inverse transform
  returns the point, exactly over the reals. The window dimensions, by which the inverse
  divides, are nonzero.
\<close>

theorem screenToCanvas_round_trip:
  assumes "0.1 \<le> scale snap" and "scale snap \<le> 5"
    and "innerWidth win \<noteq> 0" and "innerHeight win \<noteq> 0"
  shows "specCanvasToScreen win snap (screenToCanvas win snap screenPoint) = screenPoint"
  using assms by (simp add: specCanvasToScreen_def screenToCanvas_def)

theorem screenToCanvas_round_trip_witness:
  "0.1 \<le> scale pannedView \<and> scale pannedView \<le> 5
   \<and> innerWidth exampleWindow \<noteq> 0 \<and> innerHeight exampleWindow \<noteq> 0
   \<and> screenToCanvas exampleWindow pannedView \<lparr>px = 0.25, py = 0.5\<rparr> = \<lparr>px = 120, py = 115\<rparr>
   \<and> specCanvasToScreen exampleWindow pannedView \<lparr>px = 120, py = 115\<rparr> = \<lparr>px = 0.25, py = 0.5\<rparr>"
  using screenToCanvas_round_trip [of pannedView exampleWindow "\<lparr>px = 0.25, py = 0.5\<rparr>"]
  by (simp add: pannedView_def exampleWindow_def initialApp_def screenToCanvas_def)


section \<open>Properties of the reducer\<close>

subsection \<open>What each block of the gesture callback changes\<close>

lemma pointDistance_horizontal: "py a = py b \<Longrightarrow> pointDistance a b = \<bar>px a - px b\<bar>"
  by (simp add: pointDistance_def)

lemma smoothed_single: "smoothed [p] = p"
  by (simp add: smoothed_def)

lemma handleDrawing_update:
  "snd (handleDrawing snap g r) prev =
     (if gtype g = Pinch \<and> confidence g > 0.6 then
        (if \<not> isDrawing snap then prev\<lparr>isDrawing := True, currentPath := []\<rparr> else prev)
      else if isDrawing snap \<and> gtype g \<noteq> Pinch then finishPath prev else prev)"
  by (simp add: handleDrawing_def)

lemma handleDrawing_refs:
  "lastZoomDistanceRef (fst (handleDrawing snap g r)) = lastZoomDistanceRef r"
  "panStartRef (fst (handleDrawing snap g r)) = panStartRef r"
  by (simp_all add: handleDrawing_def)

lemma handlePanning_frame:
  "scale (snd (handlePanning win snap g r) prev) = scale prev"
  "paths (snd (handlePanning win snap g r) prev) = paths prev"
  "currentPath (snd (handlePanning win snap g r) prev) = currentPath prev"
  "isDrawing (snd (handlePanning win snap g r) prev) = isDrawing prev"
  by (simp_all add: handlePanning_def Let_def split: option.splits)

lemma handlePanning_refs:
  "lastZoomDistanceRef (fst (handlePanning win snap g r)) = lastZoomDistanceRef r"
  by (simp add: handlePanning_def Let_def split: option.splits)

lemma handleZooming_frame:
  "paths (snd (handleZooming snap g r) prev) = paths prev"
  "currentPath (snd (handleZooming snap g r) prev) = currentPath prev"
  "isDrawing (snd (handleZooming snap g r) prev) = isDrawing prev"
  by (simp_all add: handleZooming_def Let_def)

lemma handleZooming_scale:
  "scale (snd (handleZooming snap g r) prev) =
     (if gtype g = Zoom \<and> truthy (distance g) \<and> confidence g > 0.7 \<and> isZooming snap
         \<and> truthy (lastZoomDistanceRef r)
      then max 0.1 (min 5 (scale snap * (the (distance g) / the (lastZoomDistanceRef r))))
      else scale prev)"
  by (simp add: handleZooming_def Let_def)

lemma handleZooming_baseline:
  "lastZoomDistanceRef (fst (handleZooming snap g r)) =
     (if gtype g = Zoom \<and> truthy (distance g) \<and> confidence g > 0.7 then
        (if \<not> isZooming snap \<or> truthy (lastZoomDistanceRef r) then distance g
         else lastZoomDistanceRef r)
      else if isZooming snap \<and> gtype g \<noteq> Zoom then None
      else lastZoomDistanceRef r)"
  by (simp add: handleZooming_def Let_def)

lemma handleErasing_frame:
  "scale (handleErasing win snap g prev) = scale prev"
  "currentPath (handleErasing win snap g prev) = currentPath prev"
  "isDrawing (handleErasing win snap g prev) = isDrawing prev"
  by (simp_all add: handleErasing_def Let_def)

lemma handleErasing_paths:
  "paths (handleErasing win snap g prev) =
     (if gtype g = Fist \<and> confidence g > 0.8 then
        filter (\<lambda>path. \<not> list_ex (nearPoint
            (screenToCanvas win snap \<lparr>px = 1 - px (position g), py = py (position g)\<rparr>)
            (50 / scale snap)) path) (paths prev)
      else paths prev)"
  by (simp add: handleErasing_def Let_def)

lemma handleGestureDetected_update:
  "snd (handleGestureDetected win snap g r) prev =
     handleErasing win snap g
       (snd (handleZooming snap g (fst (handlePanning win snap g
              (if gtype g = NoGesture
               then (fst (handleDrawing snap g r))\<lparr>lastGestureTypeRef := None\<rparr>
               else fst (handleDrawing snap g r)))))
         (snd (handlePanning win snap g
              (if gtype g = NoGesture
               then (fst (handleDrawing snap g r))\<lparr>lastGestureTypeRef := None\<rparr>
               else fst (handleDrawing snap g r)))
           (snd (handleDrawing snap g r) prev)))"
  by (simp add: handleGestureDetected_def Let_def split: prod.splits)

lemma handleGestureDetected_refs:
  "fst (handleGestureDetected win snap g r) =
     (fst (handleZooming snap g (fst (handlePanning win snap g
              (if gtype g = NoGesture
               then (fst (handleDrawing snap g r))\<lparr>lastGestureTypeRef := None\<rparr>
               else fst (handleDrawing snap g r))))))
       \<lparr>lastGestureRef := Some g, lastGestureTypeRef := Some (gtype g)\<rparr>"
  by (simp add: handleGestureDetected_def Let_def split: prod.splits)

lemma handleGestureDetected_baseline:
  "lastZoomDistanceRef (fst (handleGestureDetected win snap g r)) =
     lastZoomDistanceRef (fst (handleZooming snap g r))"
  by (simp add: handleGestureDetected_refs handleZooming_baseline handlePanning_refs
        handleDrawing_refs)

lemma handleGestureDetected_scale:
  "scale (snd (handleGestureDetected win snap g r) prev) =
     (if gtype g = Zoom \<and> truthy (distance g) \<and> confidence g > 0.7 \<and> isZooming snap
         \<and> truthy (lastZoomDistanceRef r)
      then max 0.1 (min 5 (scale snap * (the (distance g) / the (lastZoomDistanceRef r))))
      else scale prev)"
  by (simp add: handleGestureDetected_update handleErasing_frame handleZooming_scale
        handlePanning_frame handlePanning_refs handleDrawing_refs handleDrawing_update
        finishPath_def)

lemma handleGestureDetected_currentPath:
  "currentPath (snd (handleGestureDetected win snap g r) prev) =
     currentPath (snd (handleDrawing snap g r) prev)"
  "isDrawing (snd (handleGestureDetected win snap g r) prev) =
     isDrawing (snd (handleDrawing snap g r) prev)"
  by (simp_all add: handleGestureDetected_update handleErasing_frame handleZooming_frame
        handlePanning_frame)

lemma handleGestureDetected_paths:
  "paths (snd (handleGestureDetected win snap g r) prev) =
     paths (handleErasing win snap g (snd (handleDrawing snap g r) prev))"
  by (simp add: handleGestureDetected_update handleErasing_paths handleZooming_frame
        handlePanning_frame)

lemma handleHandPositionUpdate_scale:
  "scale (snd (handleHandPositionUpdate win snap pos r prev)) = scale prev"
  by (simp add: handleHandPositionUpdate_def Let_def split: option.splits)

lemma handleHandPositionUpdate_baseline:
  "lastZoomDistanceRef (fst (handleHandPositionUpdate win snap pos r prev)) =
     lastZoomDistanceRef r"
  by (simp add: handleHandPositionUpdate_def Let_def split: option.splits)

lemmas handler_defs = dispatch_def handleGestureDetected_def handleDrawing_def
  handlePanning_def handleZooming_def handleErasing_def truthy_def Let_def

subsection \<open>Zoom scale\<close>

lemma clamp_cases:
  "max (0.1::real) (min 5 v) = (if v < 0.1 then 0.1 else if 5 < v then 5 else v)"
  by (simp add: max_def min_def)

lemma handleGestureDetected_scale_range:
  assumes "0.1 \<le> scale prev" and "scale prev \<le> 5"
  shows "0.1 \<le> scale (snd (handleGestureDetected win snap g r) prev) \<and>
         scale (snd (handleGestureDetected win snap g r) prev) \<le> 5"
  unfolding handleGestureDetected_scale using assms by (simp add: max_def min_def)

lemma dispatch_scale_range:
  assumes "0.1 \<le> scale (drawingState app)" and "scale (drawingState app) \<le> 5"
  shows "0.1 \<le> scale (drawingState (dispatch win snap ev app)) \<and>
         scale (drawingState (dispatch win snap ev app)) \<le> 5"
proof (cases ev)
  case (GestureDetected g)
  have "drawingState (dispatch win snap ev app) =
          snd (handleGestureDetected win snap g (refs app)) (drawingState app)"
    by (simp add: GestureDetected dispatch_def split: prod.splits)
  then show ?thesis
    using handleGestureDetected_scale_range [OF assms] by simp
next
  case (HandPositionUpdate pos)
  have "drawingState (dispatch win snap ev app) =
          snd (handleHandPositionUpdate win snap pos (refs app) (drawingState app))"
    by (simp add: HandPositionUpdate dispatch_def split: prod.splits)
  then show ?thesis
    using assms by (simp add: handleHandPositionUpdate_scale)
next
  case ClearCanvas
  then show ?thesis
    using assms by (simp add: dispatch_def handleClearCanvas_def)
next
  case ResetView
  then show ?thesis
    using assms by (simp add: dispatch_def handleResetView_def)
qed

lemma run_scale_range:
  "0.1 \<le> scale (drawingState app) \<Longrightarrow> scale (drawingState app) \<le> 5 \<Longrightarrow>
   0.1 \<le> scale (drawingState (run win app calls)) \<and>
   scale (drawingState (run win app calls)) \<le> 5"
proof (induction calls arbitrary: app)
  case Nil
  then show ?case by simp
next
  case (Cons c calls)
  obtain snap ev where c: "c = (snap, ev)"
    by (cases c)
  show ?case
    unfolding c run.simps
    using Cons.IH dispatch_scale_range [OF Cons.prems] by blast
qed

lemma zoom_update_scale:
  assumes "gtype g = Zoom" and "confidence g > 0.7" and "isZooming snap"
    and "distance g = Some d" and "d \<noteq> 0" and "lastZoomDistanceRef r = Some l" and "l \<noteq> 0"
  shows "scale (snd (handleGestureDetected win snap g r) prev) =
           max 0.1 (min 5 (scale snap * (d / l)))"
  using assms by (simp add: handleGestureDetected_scale truthy_def)

text \<open>
  C3. From any state whose scale lies between 0.1 and 5, every finite run of callbacks
  (gesture callbacks with any gesture and any snapshot, hand-position callbacks, clear and
  reset) ends in a state whose scale lies between 0.1 and 5. A zoom update, which
  multiplies the scale of its snapshot by the ratio of the reported distance to the
  recorded one, yields 0.1 when the product is below 0.1 and 5 when it is above 5.
\<close>

theorem zoom_scale_clamped:
  assumes "0.1 \<le> scale (drawingState app)" and "scale (drawingState app) \<le> 5"
  shows "0.1 \<le> scale (drawingState (run win app calls)) \<and>
         scale (drawingState (run win app calls)) \<le> 5 \<and>
         (gtype gesture = Zoom \<and> confidence gesture > 0.7 \<and> isZooming snap
            \<and> distance gesture = Some d \<and> d \<noteq> 0
            \<and> lastZoomDistanceRef (refs app) = Some l \<and> l \<noteq> 0 \<longrightarrow>
          scale (drawingState (dispatch win snap (GestureDetected gesture) app)) =
            (if scale snap * (d / l) < 0.1 then 0.1
             else if 5 < scale snap * (d / l) then 5
             else scale snap * (d / l)))"
proof -
  have step: "scale (drawingState (dispatch win snap (GestureDetected gesture) app)) =
          scale (snd (handleGestureDetected win snap gesture (refs app)) (drawingState app))"
    by (simp add: dispatch_def split: prod.splits)
  have pinned: "gtype gesture = Zoom \<and> confidence gesture > 0.7 \<and> isZooming snap
            \<and> distance gesture = Some d \<and> d \<noteq> 0
            \<and> lastZoomDistanceRef (refs app) = Some l \<and> l \<noteq> 0 \<longrightarrow>
          scale (drawingState (dispatch win snap (GestureDetected gesture) app)) =
            (if scale snap * (d / l) < 0.1 then 0.1
             else if 5 < scale snap * (d / l) then 5
             else scale snap * (d / l))"
    unfolding step
    using zoom_update_scale [of gesture snap d "refs app" l win "drawingState app"]
      clamp_cases [of "scale snap * (d / l)"]
    by auto
  show ?thesis
    using run_scale_range [OF assms, of win calls] pinned by blast
qed

theorem zoom_scale_clamped_witness:
  "0.1 \<le> scale (drawingState initialApp) \<and> scale (drawingState initialApp) \<le> 5 \<and>
   scale (drawingState (run exampleWindow initialApp zoomCalls)) = 5 \<and>
   0.1 \<le> scale (drawingState zoomingApp) \<and> scale (drawingState zoomingApp) \<le> 5 \<and>
   isZooming (drawingState zoomingApp) \<and> lastZoomDistanceRef (refs zoomingApp) = Some 0.1 \<and>
   scale (drawingState zoomingApp) * (10 / 0.1) > 5 \<and>
   scale (drawingState (dispatch exampleWindow (drawingState zoomingApp)
            (GestureDetected (zoomGesture 10)) zoomingApp)) = 5 \<and>
   scale (drawingState zoomingApp) * (0.001 / 0.1) < 0.1 \<and>
   scale (drawingState (dispatch exampleWindow (drawingState zoomingApp)
            (GestureDetected (zoomGesture 0.001)) zoomingApp)) = 0.1"
  using zoom_scale_clamped [of initialApp exampleWindow zoomCalls]
    zoom_scale_clamped [of zoomingApp exampleWindow "[]" "zoomGesture 10"
                           "drawingState zoomingApp" 10 "0.1"]
    zoom_scale_clamped [of zoomingApp exampleWindow "[]" "zoomGesture 0.001"
                           "drawingState zoomingApp" "0.001" "0.1"]
  by (simp add: zoomCalls_def zoomingApp_def initialApp_def exampleWindow_def zoomGesture_def
        handler_defs)

subsection \<open>Zoom baseline\<close>

lemma handleGestureDetected_baseline_cases:
  "lastZoomDistanceRef (fst (handleGestureDetected win snap g r)) = None
   \<or> lastZoomDistanceRef (fst (handleGestureDetected win snap g r)) = lastZoomDistanceRef r
   \<or> (lastZoomDistanceRef (fst (handleGestureDetected win snap g r)) = distance g
       \<and> (\<exists>d. distance g = Some d \<and> d \<noteq> 0))"
  by (auto simp: handleGestureDetected_baseline handleZooming_baseline truthy_def
        split: option.splits)

lemma dispatch_baseline:
  assumes "lastZoomDistanceRef (refs app) \<noteq> Some 0"
  shows "lastZoomDistanceRef (refs (dispatch win snap ev app)) \<noteq> Some 0"
proof (cases ev)
  case (GestureDetected g)
  have "refs (dispatch win snap ev app) = fst (handleGestureDetected win snap g (refs app))"
    by (simp add: GestureDetected dispatch_def split: prod.splits)
  then show ?thesis
    using assms handleGestureDetected_baseline_cases [of win snap g "refs app"] by auto
next
  case (HandPositionUpdate pos)
  have "refs (dispatch win snap ev app) =
          fst (handleHandPositionUpdate win snap pos (refs app) (drawingState app))"
    by (simp add: HandPositionUpdate dispatch_def split: prod.splits)
  then show ?thesis
    using assms by (simp add: handleHandPositionUpdate_baseline)
next
  case ClearCanvas
  then show ?thesis
    using assms by (simp add: dispatch_def)
next
  case ResetView
  then show ?thesis
    using assms by (simp add: dispatch_def)
qed

lemma run_baseline:
  "lastZoomDistanceRef (refs app) \<noteq> Some 0 \<Longrightarrow>
   lastZoomDistanceRef (refs (run win app calls)) \<noteq> Some 0"
proof (induction calls arbitrary: app)
  case Nil
  then show ?case by simp
next
  case (Cons c calls)
  obtain snap ev where c: "c = (snap, ev)"
    by (cases c)
  show ?case
    unfolding c run.simps
    using Cons.IH dispatch_baseline [OF Cons.prems] by blast
qed

text \<open>
  C10. The zoom update never divides by zero. In every state reachable from the initial
  one the recorded baseline distance is absent or nonzero. A gesture callback leaves the
  baseline as it was, clears it, or records the gesture's distance, and it records it only
  when that distance is present and nonzero. It changes the scale only on the branch that
  divides the gesture's distance \<open>d\<close> by the recorded baseline \<open>l\<close>, and there both are
  present and nonzero.
\<close>

theorem zoom_baseline_nonzero:
  "lastZoomDistanceRef (refs (run win initialApp calls)) \<noteq> Some 0 \<and>
   (lastZoomDistanceRef (fst (handleGestureDetected win snap gesture r)) = None
    \<or> lastZoomDistanceRef (fst (handleGestureDetected win snap gesture r))
         = lastZoomDistanceRef r
    \<or> (lastZoomDistanceRef (fst (handleGestureDetected win snap gesture r)) = distance gesture
        \<and> (\<exists>d. distance gesture = Some d \<and> d \<noteq> 0))) \<and>
   (scale (snd (handleGestureDetected win snap gesture r) prev) = scale prev
    \<or> (\<exists>d l. distance gesture = Some d \<and> d \<noteq> 0 \<and> lastZoomDistanceRef r = Some l \<and> l \<noteq> 0
          \<and> scale (snd (handleGestureDetected win snap gesture r) prev)
              = max 0.1 (min 5 (scale snap * (d / l)))))"
proof -
  have reachable: "lastZoomDistanceRef (refs (run win initialApp calls)) \<noteq> Some 0"
    by (rule run_baseline) (simp add: initialApp_def)
  have divides: "scale (snd (handleGestureDetected win snap gesture r) prev) = scale prev
    \<or> (\<exists>d l. distance gesture = Some d \<and> d \<noteq> 0 \<and> lastZoomDistanceRef r = Some l \<and> l \<noteq> 0
          \<and> scale (snd (handleGestureDetected win snap gesture r) prev)
              = max 0.1 (min 5 (scale snap * (d / l))))"
    by (auto simp: handleGestureDetected_scale truthy_def split: option.splits)
  from reachable handleGestureDetected_baseline_cases [of win snap gesture r] divides
  show ?thesis by blast
qed

theorem zoom_baseline_nonzero_witness:
  "lastZoomDistanceRef (refs (run exampleWindow initialApp [hd zoomCalls])) = Some 0.1 \<and>
   lastZoomDistanceRef (refs (run exampleWindow initialApp zoomCalls)) = Some 10 \<and>
   scale (snd (handleGestureDetected exampleWindow ((drawingState initialApp)\<lparr>isZooming := True\<rparr>)
                 (zoomGesture 10) (refs (run exampleWindow initialApp [hd zoomCalls])))
              (drawingState initialApp)) = 5"
  using zoom_baseline_nonzero [of exampleWindow zoomCalls
          "(drawingState initialApp)\<lparr>isZooming := True\<rparr>" "zoomGesture 10"
          "refs (run exampleWindow initialApp [hd zoomCalls])" "drawingState initialApp"]
  by (simp add: zoomCalls_def initialApp_def exampleWindow_def zoomGesture_def handler_defs)

subsection \<open>Strokes\<close>

text \<open>
  C4, as amended. When the gesture callback runs with a snapshot that is drawing and a
  gesture that is not a pinch, the current path becomes empty and \<open>isDrawing\<close> becomes
  false. The completed paths are then the old ones, followed by the current path when it
  has two or more points, as filtered by the erase block of the same callback. When the
  gesture is not a fist with confidence above 0.8 nothing is filtered: a current path of
  one point adds no entry, a current path of two or more points adds exactly itself.
\<close>

theorem stroke_finished_on_gesture_change:
  assumes "isDrawing snap" and "gtype gesture \<noteq> Pinch"
  shows "currentPath (snd (handleGestureDetected win snap gesture r) prev) = [] \<and>
         \<not> isDrawing (snd (handleGestureDetected win snap gesture r) prev) \<and>
         paths (snd (handleGestureDetected win snap gesture r) prev) =
           paths (handleErasing win snap gesture (finishPath prev)) \<and>
         (\<not> (gtype gesture = Fist \<and> confidence gesture > 0.8) \<longrightarrow>
            (length (currentPath prev) = 1 \<longrightarrow>
               paths (snd (handleGestureDetected win snap gesture r) prev) = paths prev) \<and>
            (length (currentPath prev) \<ge> 2 \<longrightarrow>
               paths (snd (handleGestureDetected win snap gesture r) prev) =
                 paths prev @ [currentPath prev]))"
  using assms
  by (simp add: handleGestureDetected_currentPath handleGestureDetected_paths
        handleDrawing_update handleErasing_paths finishPath_def)

theorem stroke_finished_on_gesture_change_witness:
  "isDrawing drawingSnapshot \<and> gtype palmGesture \<noteq> Pinch \<and>
   \<not> (gtype palmGesture = Fist \<and> confidence palmGesture > 0.8) \<and>
   length (currentPath strokeInProgress) \<ge> 2 \<and> length (currentPath dotInProgress) = 1 \<and>
   paths (snd (handleGestureDetected exampleWindow drawingSnapshot palmGesture (refs initialApp))
            strokeInProgress) = [ [\<lparr>px = 500, py = 250\<rparr>, \<lparr>px = 510, py = 250\<rparr>] ] \<and>
   paths (snd (handleGestureDetected exampleWindow drawingSnapshot palmGesture (refs initialApp))
            dotInProgress) = []"
  using stroke_finished_on_gesture_change
          [of drawingSnapshot palmGesture exampleWindow "refs initialApp" strokeInProgress]
        stroke_finished_on_gesture_change
          [of drawingSnapshot palmGesture exampleWindow "refs initialApp" dotInProgress]
  by (simp add: handleGestureDetected_paths handleDrawing_update handleErasing_paths
        finishPath_def drawingSnapshot_def palmGesture_def strokeInProgress_def
        dotInProgress_def initialApp_def)

text \<open>
  The claim as stated fails when the session ends on a fist held over the stroke: the
  current path has two points, and after the callback the list of completed paths is
  still empty.
\<close>

theorem stroke_finished_on_gesture_change_counterexample:
  "isDrawing drawingSnapshot \<and> gtype fistGesture \<noteq> Pinch \<and>
   length (currentPath strokeInProgress) = 2 \<and> paths strokeInProgress = [] \<and>
   paths (snd (handleGestureDetected exampleWindow drawingSnapshot fistGesture (refs initialApp))
            strokeInProgress) = []"
  by (simp add: handleGestureDetected_paths handleDrawing_update handleErasing_paths
        finishPath_def nearPoint_def pointDistance_horizontal screenToCanvas_def
        drawingSnapshot_def fistGesture_def strokeInProgress_def initialApp_def
        exampleWindow_def)


subsection \<open>Erasing\<close>

text \<open>
  C5, as amended. On a fist with confidence above 0.8 the gesture callback keeps, in
  order and unchanged, exactly those completed paths all of whose points lie at a distance
  of at least 50 divided by the snapshot's scale from the canvas projection of the mirrored
  fist position, and removes every path with a point strictly closer than that. A path
  with a point exactly on the radius and none inside it is kept. The list that is filtered
  includes the stroke that the same callback has just finished, if any. The scale of the
  snapshot is nonzero.
\<close>

theorem erase_filters_paths:
  assumes "gtype gesture = Fist" and "confidence gesture > 0.8" and "scale snap \<noteq> 0"
  shows "paths (snd (handleGestureDetected win snap gesture r) prev) =
           filter (\<lambda>path. \<forall>point \<in> set path.
                     50 / scale snap \<le> pointDistance point (screenToCanvas win snap
                        \<lparr>px = 1 - px (position gesture), py = py (position gesture)\<rparr>))
                  (paths (if isDrawing snap then finishPath prev else prev))"
  using assms
  by (simp add: handleGestureDetected_paths handleDrawing_update handleErasing_paths
        nearPoint_def list_ex_iff not_less)

theorem erase_filters_paths_witness:
  "gtype fistGesture = Fist \<and> confidence fistGesture > 0.8
   \<and> scale (drawingState initialApp) \<noteq> 0 \<and>
   paths (snd (handleGestureDetected exampleWindow (drawingState initialApp) fistGesture
                 (refs initialApp)) twoPaths) = [ [\<lparr>px = 600, py = 250\<rparr>] ]"
  using erase_filters_paths
          [of fistGesture "drawingState initialApp" exampleWindow "refs initialApp" twoPaths]
  by (simp add: fistGesture_def initialApp_def twoPaths_def exampleWindow_def
        screenToCanvas_def pointDistance_horizontal)

text \<open>
  The claim as stated fails on the radius itself: the only point of the path is at
  distance 50, which is within 50 divided by the scale 1, and the path is kept.
\<close>

theorem erase_filters_paths_counterexample:
  "gtype fistGesture = Fist \<and> confidence fistGesture > 0.8 \<and>
   pointDistance \<lparr>px = 550, py = 250\<rparr>
      (screenToCanvas exampleWindow (drawingState initialApp)
         \<lparr>px = 1 - px (position fistGesture), py = py (position fistGesture)\<rparr>)
     \<le> 50 / scale (drawingState initialApp) \<and>
   paths boundaryPaths = [ [\<lparr>px = 550, py = 250\<rparr>] ] \<and>
   paths (snd (handleGestureDetected exampleWindow (drawingState initialApp) fistGesture
                 (refs initialApp)) boundaryPaths) = [ [\<lparr>px = 550, py = 250\<rparr>] ]"
  by (simp add: handleGestureDetected_paths handleDrawing_update handleErasing_paths
        nearPoint_def pointDistance_horizontal screenToCanvas_def
        fistGesture_def initialApp_def boundaryPaths_def exampleWindow_def)

subsection \<open>Movement threshold\<close>

text \<open>
  C7, as amended. When the last gesture type is pinch and a last emitted position is
  recorded, a hand position whose smoothed value is strictly closer than 0.01 to the last
  emitted position changes neither the drawing state nor the recorded position; the
  current path changes only if that distance is at least 0.01. A smoothed position at
  distance exactly 0.01 is emitted.
\<close>

theorem movement_threshold:
  assumes "lastGestureTypeRef r = Some Pinch" and "lastDrawPositionRef r = Some lastDraw"
  shows "(pointDistance (smoothed (pushPosition (positionHistoryRef r) handPosition)) lastDraw
            < MIN_DISTANCE_THRESHOLD \<longrightarrow>
          snd (handleHandPositionUpdate win snap (Some handPosition) r prev) = prev \<and>
          lastDrawPositionRef (fst (handleHandPositionUpdate win snap (Some handPosition) r prev))
            = Some lastDraw) \<and>
         (currentPath (snd (handleHandPositionUpdate win snap (Some handPosition) r prev))
            \<noteq> currentPath prev \<longrightarrow>
          MIN_DISTANCE_THRESHOLD
            \<le> pointDistance (smoothed (pushPosition (positionHistoryRef r) handPosition))
                 lastDraw)"
  using assms
  by (auto simp: handleHandPositionUpdate_def Let_def)

theorem movement_threshold_witness:
  "lastGestureTypeRef pinchRefs = Some Pinch \<and>
   lastDrawPositionRef pinchRefs = Some \<lparr>px = 0, py = 0\<rparr> \<and>
   pointDistance (smoothed (pushPosition (positionHistoryRef pinchRefs) \<lparr>px = 0.005, py = 0\<rparr>))
      \<lparr>px = 0, py = 0\<rparr> < MIN_DISTANCE_THRESHOLD \<and>
   snd (handleHandPositionUpdate exampleWindow drawingSnapshot (Some \<lparr>px = 0.005, py = 0\<rparr>)
          pinchRefs dotInProgress) = dotInProgress \<and>
   currentPath (snd (handleHandPositionUpdate exampleWindow drawingSnapshot
                       (Some \<lparr>px = 0.02, py = 0\<rparr>) pinchRefs dotInProgress))
     \<noteq> currentPath dotInProgress \<and>
   MIN_DISTANCE_THRESHOLD
     \<le> pointDistance (smoothed (pushPosition (positionHistoryRef pinchRefs) \<lparr>px = 0.02, py = 0\<rparr>))
          \<lparr>px = 0, py = 0\<rparr>"
  using movement_threshold [of pinchRefs "\<lparr>px = 0, py = 0\<rparr>" "\<lparr>px = 0.005, py = 0\<rparr>"
          exampleWindow drawingSnapshot dotInProgress]
    movement_threshold [of pinchRefs "\<lparr>px = 0, py = 0\<rparr>" "\<lparr>px = 0.02, py = 0\<rparr>"
          exampleWindow drawingSnapshot dotInProgress]
  by (simp add: handleHandPositionUpdate_def Let_def pinchRefs_def initialApp_def
        pushPosition_def SMOOTHING_WINDOW_def smoothed_single pointDistance_horizontal
        MIN_DISTANCE_THRESHOLD_def screenToCanvas_def drawingSnapshot_def dotInProgress_def
        exampleWindow_def)

text \<open>
  The claim as stated fails at distance exactly 0.01: the distance does not exceed the
  threshold, and the position is appended to the current path.
\<close>

theorem movement_threshold_counterexample:
  "lastGestureTypeRef pinchRefs = Some Pinch \<and>
   lastDrawPositionRef pinchRefs = Some \<lparr>px = 0, py = 0\<rparr> \<and>
   \<not> pointDistance (smoothed (pushPosition (positionHistoryRef pinchRefs) \<lparr>px = 0.01, py = 0\<rparr>))
        \<lparr>px = 0, py = 0\<rparr> > MIN_DISTANCE_THRESHOLD \<and>
   currentPath dotInProgress = [\<lparr>px = 500, py = 250\<rparr>] \<and>
   currentPath (snd (handleHandPositionUpdate exampleWindow drawingSnapshot
                       (Some \<lparr>px = 0.01, py = 0\<rparr>) pinchRefs dotInProgress))
     = [\<lparr>px = 500, py = 250\<rparr>, \<lparr>px = 990, py = 0\<rparr>]"
  by (simp add: handleHandPositionUpdate_def Let_def pinchRefs_def initialApp_def
        pushPosition_def SMOOTHING_WINDOW_def smoothed_single pointDistance_horizontal
        MIN_DISTANCE_THRESHOLD_def screenToCanvas_def drawingSnapshot_def dotInProgress_def
        exampleWindow_def)


section \<open>Properties of the motion analysis\<close>

declare motionLoop.simps [simp del]

lemma motionLoop_total_mono: "fst (snd acc) \<le> fst (snd (motionLoop c p i acc))"
proof (induction c p i acc rule: motionLoop.induct)
  case (1 c p i m t d)
  show ?case
  proof (cases "int i < int (length c) - 2")
    case True
    have "Suc t \<le> fst (snd (motionLoop c p (i + 2)
            (if jsGreater (jsAbs (jsSub (brightness c i) (brightness p i))) (Num 3)
             then m + 1 else m,
             t + 1, jsAdd d (jsAbs (jsSub (brightness c i) (brightness p i))))))"
      using 1 [OF True refl refl refl] by simp
    then show ?thesis
      using True by (subst motionLoop.simps) (simp add: Let_def)
  next
    case False
    then show ?thesis
      by (subst motionLoop.simps) simp
  qed
qed

lemma motionLoop_total_zero:
  "fst (snd (motionLoop c p 0 (0, 0, Num 0))) = 0 \<longleftrightarrow> length c \<le> 2"
proof (cases "int 0 < int (length c) - 2")
  case True
  have "1 \<le> fst (snd (motionLoop c p (0 + 2)
            (if jsGreater (jsAbs (jsSub (brightness c 0) (brightness p 0))) (Num 3)
             then 0 + 1 else 0,
             0 + 1, jsAdd (Num 0) (jsAbs (jsSub (brightness c 0) (brightness p 0))))))"
    using motionLoop_total_mono
      [of "(if jsGreater (jsAbs (jsSub (brightness c 0) (brightness p 0))) (Num 3)
            then 0 + 1 else 0,
            0 + 1, jsAdd (Num 0) (jsAbs (jsSub (brightness c 0) (brightness p 0))))"
          c p "0 + 2"]
    by simp
  then have "1 \<le> fst (snd (motionLoop c p 0 (0, 0, Num 0)))"
    using True by (subst motionLoop.simps) (simp add: Let_def)
  with True show ?thesis by auto
next
  case False
  then show ?thesis
    by (subst motionLoop.simps) auto
qed

lemma motionLoop_missing_previous:
  "motionLoop (data onePixelFrame) (data emptyFrame) 0 (0, 0, Num 0) = (0, 1, NaN)"
  apply (subst motionLoop.simps)
  apply (simp add: onePixelFrame_def emptyFrame_def Let_def brightness_def readByte_def)
  apply (subst motionLoop.simps)
  apply simp
  done

text \<open>
  C8. For every pair of frames \<open>detectMotion\<close> returns a number that is not NaN. No
  pixel is sampled exactly when the current frame has at most two bytes, and then the
  result is 0. When the average difference or the motion ratio computed from the loop's
  counters is NaN, which is what reading beyond the end of the previous frame leads to,
  the result is 0 as well.
\<close>

theorem detectMotion_not_NaN:
  "detectMotion current previous \<noteq> NaN \<and>
   (fst (snd (motionLoop (data current) (data previous) 0 (0, 0, Num 0))) = 0
      \<longleftrightarrow> length (data current) \<le> 2) \<and>
   (length (data current) \<le> 2 \<longrightarrow> detectMotion current previous = Num 0) \<and>
   (case motionLoop (data current) (data previous) 0 (0, 0, Num 0) of
      (motionPixels, totalPixels, totalDifference) \<Rightarrow>
        isNaN (jsDiv totalDifference (Num (real totalPixels)))
        \<or> isNaN (jsDiv (Num (real motionPixels)) (Num (real totalPixels)))
        \<longrightarrow> detectMotion current previous = Num 0)"
proof -
  obtain m t d where
    loop: "motionLoop (data current) (data previous) 0 (0, 0, Num 0) = (m, t, d)"
    by (metis prod_cases3)
  have zero: "t = 0 \<longleftrightarrow> length (data current) \<le> 2"
    using motionLoop_total_zero [of "data current" "data previous"] loop by simp
  have number: "detectMotion current previous \<noteq> NaN"
    by (cases d) (simp_all add: detectMotion_def loop Let_def)
  have empty: "length (data current) \<le> 2 \<longrightarrow> detectMotion current previous = Num 0"
    using zero by (simp add: detectMotion_def loop)
  have coerced: "isNaN (jsDiv d (Num (real t))) \<or> isNaN (jsDiv (Num (real m)) (Num (real t)))
      \<longrightarrow> detectMotion current previous = Num 0"
    by (simp add: detectMotion_def loop Let_def)
  from number empty coerced zero loop show ?thesis
    by simp
qed

theorem detectMotion_not_NaN_witness:
  "length (data emptyFrame) \<le> 2 \<and> detectMotion emptyFrame onePixelFrame = Num 0 \<and>
   motionLoop (data onePixelFrame) (data emptyFrame) 0 (0, 0, Num 0) = (0, 1, NaN) \<and>
   isNaN (jsDiv NaN (Num (real (1::nat)))) \<and>
   detectMotion onePixelFrame emptyFrame = Num 0"
  using detectMotion_not_NaN [of emptyFrame onePixelFrame]
    detectMotion_not_NaN [of onePixelFrame emptyFrame] motionLoop_missing_previous
  by (simp add: emptyFrame_def)

end
